theory Spec2Isabelle
  imports Main
begin

section \<open>JavaScript values and control outcomes\<close>

text \<open>
  The two provider adapters read a JSON document that a backend sent. TypeScript's
  interfaces (\<open>FeatherlessApiResponse\<close>, the inline \<open>{ models: Array<{ name: string }> }\<close>)
  are erased when the code runs, so the result of \<open>JSON.parse\<close> is modelled as the
  value it is: any JSON value. \<open>JUndefined\<close> is what reading an absent property
  gives; \<open>JSON.parse\<close> itself never produces it. An object is the list of its own
  properties, each name once (of a repeated name the first entry is read).

  Numbers are the safe integers, those of magnitude below \<open>2^53\<close> (a context length is
  one): a JavaScript number holds each of them exactly and prints it in plain decimal.
  Every other number (a fraction, a larger magnitude) is outside the model. \<open>JNum n\<close>
  is the number \<open>n\<close>, for \<open>n\<close> in that range.
\<close>

typedef safe_integer = "{n :: int. \<bar>n\<bar> < 2 ^ 53}"
  by (rule exI [of _ 0]) simp

datatype jsval =
    JUndefined
  | JNull
  | JBool bool
  | JNumber safe_integer
  | JStr string
  | JArr "jsval list"
  | JObj "(string \<times> jsval) list"

abbreviation JNum :: "int \<Rightarrow> jsval" where
  "JNum n \<equiv> JNumber (Abs_safe_integer n)"

text \<open>The errors the code can throw or meet.\<close>

datatype js_error =
    TypeError        \<comment> \<open>reading a property of \<open>null\<close> or \<open>undefined\<close>, calling a non-function,
                         converting an object that has no usable \<open>toString\<close> to a string\<close>
  | SyntaxError      \<comment> \<open>\<open>JSON.parse\<close> or \<open>response.json()\<close> on text that is not JSON\<close>
  | AbortError       \<comment> \<open>\<open>fetch\<close> cancelled through its abort signal\<close>
  | FetchFailed      \<comment> \<open>\<open>fetch\<close> or the reading of a body failing on the network\<close>
  | Error string     \<comment> \<open>\<open>new Error(message)\<close>\<close>

text \<open>
  Synchronous code that may throw returns \<open>js_error + 'a\<close> (\<open>Inl\<close> the exception).
  An \<open>async\<close> function returns a promise; what the caller's \<open>await\<close> sees is one of
  three things: the promise never settles, it rejects (the \<open>await\<close> throws), or it
  fulfils with a value.
\<close>

datatype 'a promise = Pending | Rejected js_error | Fulfilled 'a

text \<open>\<open>!v\<close> is \<open>\<not> truthy v\<close>.\<close>

fun truthy :: "jsval \<Rightarrow> bool" where
  "truthy JUndefined = False"
| "truthy JNull = False"
| "truthy (JBool b) = b"
| "truthy (JNumber r) = (Rep_safe_integer r \<noteq> 0)"
| "truthy (JStr s) = (s \<noteq> [])"
| "truthy (JArr _) = True"
| "truthy (JObj _) = True"

text \<open>
  \<open>v.k\<close> for the property names the adapters read (\<open>models\<close>, \<open>id\<close>, \<open>details\<close>,
  \<open>name\<close>, \<open>size\<close>, \<open>context_length\<close>): a \<open>TypeError\<close> on \<open>null\<close> and \<open>undefined\<close>,
  the property of an object when it has one, and \<open>undefined\<close> otherwise (none of these
  names is a built-in property of a number, a string, a boolean or an array).
\<close>

fun js_get :: "jsval \<Rightarrow> string \<Rightarrow> js_error + jsval" where
  "js_get JUndefined k = Inl TypeError"
| "js_get JNull k = Inl TypeError"
| "js_get (JObj kvs) k = Inr (case map_of kvs k of None \<Rightarrow> JUndefined | Some v \<Rightarrow> v)"
| "js_get _ k = Inr JUndefined"

fun isArray :: "jsval \<Rightarrow> bool" where
  "isArray (JArr _) = True"
| "isArray _ = False"

text \<open>Decimal digits of a natural number.\<close>

fun decimal :: "nat \<Rightarrow> string" where
  "decimal n =
     (if n < 10 then [''0123456789'' ! n]
      else decimal (n div 10) @ [''0123456789'' ! (n mod 10)])"

fun join_comma :: "string list \<Rightarrow> string" where
  "join_comma [] = []"
| "join_comma [s] = s"
| "join_comma (s # t # ss) = s @ '','' @ join_comma (t # ss)"

text \<open>
  \<open>Array.prototype.map\<close> with a callback that may throw: the first exception ends the
  whole call.
\<close>

fun map_throwing :: "('a \<Rightarrow> js_error + 'b) \<Rightarrow> 'a list \<Rightarrow> js_error + 'b list" where
  "map_throwing f [] = Inr []"
| "map_throwing f (x # xs) =
     (case f x of
        Inl e \<Rightarrow> Inl e
      | Inr y \<Rightarrow> (case map_throwing f xs of Inl e \<Rightarrow> Inl e | Inr ys \<Rightarrow> Inr (y # ys)))"

text \<open>\<open>String(n)\<close> for a safe integer: its decimal digits, with the sign.\<close>

definition Number_toString :: "safe_integer \<Rightarrow> string" where
  "Number_toString r =
     (let n = Rep_safe_integer r
      in if n < 0 then ''-'' @ decimal (nat (- n)) else decimal (nat n))"

text \<open>
  What a template literal \<open>`${v}`\<close> does with \<open>v\<close>: the conversion \<open>ToString(v)\<close>,
  which can throw.
  \<^item> An object is converted through its \<open>toString\<close> property. An object of a JSON
    document without an own property of that name inherits \<open>Object.prototype.toString\<close>
    and prints as \<open>[object Object]\<close>. With an own \<open>toString\<close> property, whose value is
    a JSON value and so not callable, the conversion goes on to \<open>valueOf\<close>, which is
    either an own property (not callable) or the inherited one (it returns the object
    itself, not a primitive): a \<open>TypeError\<close> in both cases.
  \<^item> An array is converted by \<open>join\<close>: its elements joined by commas, \<open>null\<close> and
    \<open>undefined\<close> elements as nothing, every other element converted in its turn, the
    first exception of an element ending the conversion.
\<close>

fun js_to_string :: "jsval \<Rightarrow> js_error + string" where
  "js_to_string JUndefined = Inr ''undefined''"
| "js_to_string JNull = Inr ''null''"
| "js_to_string (JBool b) = Inr (if b then ''true'' else ''false'')"
| "js_to_string (JNumber r) = Inr (Number_toString r)"
| "js_to_string (JStr s) = Inr s"
| "js_to_string (JArr vs) =
     (case map_throwing (\<lambda>r. r)
             (map (\<lambda>v. if v = JNull \<or> v = JUndefined then Inr [] else js_to_string v) vs) of
        Inl e \<Rightarrow> Inl e
      | Inr ss \<Rightarrow> Inr (join_comma ss))"
| "js_to_string (JObj kvs) =
     (case map_of kvs ''toString'' of
        None \<Rightarrow> Inr ''[object Object]''
      | Some v \<Rightarrow> Inl TypeError)"

section \<open>The network\<close>

text \<open>
  \<open>fetch\<close> is the environment's. A request is its URL and headers. The world answers a
  request in one of three ways: the connection fails, nothing ever comes back, or a
  response arrives after some milliseconds. A response has the \<open>ok\<close> flag of its status
  and a body; reading the body to its end (\<open>response.text()\<close>, \<open>response.json()\<close>) may
  itself never finish, fail, or deliver a text, of which the model keeps what
  \<open>JSON.parse\<close> makes of it.
\<close>

record request =
  url :: string
  headers :: "(string \<times> string) list"

datatype payload = NotJson | Json jsval

record http_response =
  ok :: bool
  body :: "payload promise"

datatype server = Unreachable | NoReply | Responds nat http_response

type_synonym world = "request \<Rightarrow> server"

text \<open>
  \<open>fetch(url, { signal, headers })\<close>. The signal is given as the delay in milliseconds
  after which its controller aborts (\<open>setTimeout(() => controller.abort(), d)\<close>), or
  \<open>None\<close> when \<open>fetch\<close> is called without a signal. The promise fulfils when the
  response's headers have arrived; an abort before that rejects it.
\<close>

definition fetch :: "world \<Rightarrow> request \<Rightarrow> nat option \<Rightarrow> http_response promise" where
  "fetch w rq signal =
     (case w rq of
        Unreachable \<Rightarrow> Rejected FetchFailed
      | NoReply \<Rightarrow> (case signal of None \<Rightarrow> Pending | Some d \<Rightarrow> Rejected AbortError)
      | Responds t r \<Rightarrow>
          (case signal of
             None \<Rightarrow> Fulfilled r
           | Some d \<Rightarrow> if t < d then Fulfilled r else Rejected AbortError))"

text \<open>\<open>response.json()\<close>: read the body and parse it.\<close>

definition response_json :: "http_response \<Rightarrow> jsval promise" where
  "response_json r =
     (case body r of
        Pending \<Rightarrow> Pending
      | Rejected e \<Rightarrow> Rejected e
      | Fulfilled NotJson \<Rightarrow> Rejected SyntaxError
      | Fulfilled (Json v) \<Rightarrow> Fulfilled v)"

section \<open>The data model\<close>

text \<open>
  \<open>ModelInfo\<close>. The adapters copy \<open>name\<close>, \<open>label\<close> and \<open>maxTokenAllowed\<close> out of the
  backend's document, so these fields hold whatever value was there; \<open>provider\<close> is
  always the adapter's own \<open>name\<close>, a string.
\<close>

record ModelInfo =
  name :: jsval
  label :: jsval
  provider :: string
  maxTokenAllowed :: jsval

text \<open>
  The argument of \<open>getProviderBaseUrlAndKey\<close>. The method belongs to \<open>BaseProvider\<close>,
  which is not among the sources: every definition below takes it as a parameter, a
  function from these options to the pair \<open>(baseUrl, apiKey)\<close>, each a string or
  \<open>undefined\<close>. The adapters hand their settings and server environment on unread, at
  whatever type they got them, so both are type parameters.
\<close>

record ('s, 'e) ProviderOptions =
  apiKeys :: "(string \<rightharpoonup> string) option"
  providerSettings :: 's
  serverEnv :: 'e
  defaultBaseUrlKey :: string
  defaultApiTokenKey :: string

type_synonym ('s, 'e) resolver = "('s, 'e) ProviderOptions \<Rightarrow> string option \<times> string option"

text \<open>\<open>!s\<close> for a string or \<open>undefined\<close>: true of \<open>undefined\<close> and of the empty string.\<close>

fun falsy :: "string option \<Rightarrow> bool" where
  "falsy None = True"
| "falsy (Some s) = (s = [])"

text \<open>\<open>`${s}`\<close> for a string or \<open>undefined\<close>.\<close>

fun template :: "string option \<Rightarrow> string" where
  "template None = ''undefined''"
| "template (Some s) = s"

text \<open>
  A \<open>LanguageModelV1\<close> handle, as far as the adapters determine it: the arguments of
  \<open>getOpenAILikeModel(baseUrl, apiKey, model)\<close>, or the model, \<open>numCtx\<close> and
  \<open>config.baseURL\<close> of an \<open>ollama\<close> instance.
\<close>

datatype LanguageModelV1 =
    OpenAILikeModel string string string
  | OllamaInstance string nat string

section \<open>The Featherless adapter\<close>

definition Featherless_name :: string where
  "Featherless_name = ''Featherless''"

text \<open>\<open>staticModels\<close>: the models that are always available.\<close>

definition Featherless_staticModels :: "ModelInfo list" where
  "Featherless_staticModels =
     [\<lparr>name = JStr ''meta-llama/Meta-Llama-3.1-8B-Instruct'', label = JStr ''LLaMA-3 8B Instruct'',
       provider = Featherless_name, maxTokenAllowed = JNum 4096\<rparr>,
      \<lparr>name = JStr ''mistralai/Mistral-7B'', label = JStr ''Mistral 7B'',
       provider = Featherless_name, maxTokenAllowed = JNum 4096\<rparr>]"

text \<open>
  The callback of \<open>data.models.map\<close> (lines 115 to 120), in the order of evaluation:
  \<open>model.id\<close>; for the label \<open>model.details.name\<close> and its conversion to a string,
  then \<open>model.details.size\<close> and its conversion; then \<open>model.details.context_length\<close>.
  Each property read and each conversion can throw.
\<close>

definition Featherless_toModelInfo :: "jsval \<Rightarrow> js_error + ModelInfo" where
  "Featherless_toModelInfo m =
     (case js_get m ''id'' of
        Inl e \<Rightarrow> Inl e
      | Inr i \<Rightarrow>
     (case js_get m ''details'' of
        Inl e \<Rightarrow> Inl e
      | Inr d \<Rightarrow>
     (case js_get d ''name'' of
        Inl e \<Rightarrow> Inl e
      | Inr n \<Rightarrow>
     (case js_to_string n of
        Inl e \<Rightarrow> Inl e
      | Inr ns \<Rightarrow>
     (case js_get d ''size'' of
        Inl e \<Rightarrow> Inl e
      | Inr sz \<Rightarrow>
     (case js_to_string sz of
        Inl e \<Rightarrow> Inl e
      | Inr szs \<Rightarrow>
     (case js_get d ''context_length'' of
        Inl e \<Rightarrow> Inl e
      | Inr c \<Rightarrow>
          Inr \<lparr>name = i,
               label = JStr (ns @ '' ('' @ szs @ '')''),
               provider = Featherless_name,
               maxTokenAllowed = c\<rparr>)))))))"

text \<open>
  Lines 109 to 124, from the parsed document on: the shape check, then the mapping.
  \<open>data.models\<close> throws when \<open>data\<close> is \<open>null\<close>.
\<close>

definition Featherless_modelsOfData :: "jsval \<Rightarrow> js_error + ModelInfo list" where
  "Featherless_modelsOfData d =
     (case js_get d ''models'' of
        Inl e \<Rightarrow> Inl e
      | Inr ms \<Rightarrow>
          if \<not> truthy ms \<or> \<not> isArray ms then Inr []
          else (case ms of JArr vs \<Rightarrow> map_throwing Featherless_toModelInfo vs | _ \<Rightarrow> Inr []))"

text \<open>The request of lines 68 to 80.\<close>

definition Featherless_request :: "string \<Rightarrow> string \<Rightarrow> request" where
  "Featherless_request b k =
     \<lparr>url = b @ ''/models'',
      headers = [(''Accept'', ''application/json''), (''Authorization'', ''Bearer '' @ k)]\<rparr>"

text \<open>
  The body of the \<open>try\<close> block (lines 68 to 124). The abort timer is set to 5000 ms
  before \<open>fetch\<close> and cleared as soon as \<open>fetch\<close> has returned the response, before the
  body is read. A response that is not \<open>ok\<close> has its body read for the log and gives
  \<open>[]\<close>; text that \<open>JSON.parse\<close> rejects gives \<open>[]\<close> through the inner \<open>catch\<close>.
\<close>

definition Featherless_try :: "world \<Rightarrow> string \<Rightarrow> string \<Rightarrow> ModelInfo list promise" where
  "Featherless_try w b k =
     (case fetch w (Featherless_request b k) (Some 5000) of
        Pending \<Rightarrow> Pending
      | Rejected e \<Rightarrow> Rejected e
      | Fulfilled response \<Rightarrow>
          if \<not> ok response then
            (case body response of
               Pending \<Rightarrow> Pending
             | Rejected e \<Rightarrow> Rejected e
             | Fulfilled errorText \<Rightarrow> Fulfilled [])
          else
            (case body response of
               Pending \<Rightarrow> Pending
             | Rejected e \<Rightarrow> Rejected e
             | Fulfilled NotJson \<Rightarrow> Fulfilled []
             | Fulfilled (Json d) \<Rightarrow>
                 (case Featherless_modelsOfData d of
                    Inl e \<Rightarrow> Rejected e
                  | Inr ms \<Rightarrow> Fulfilled ms)))"

text \<open>
  The options of lines 54 to 60; an absent \<open>serverEnv\<close> argument is the empty record
  (the parameter's default \<open>{}\<close>).
\<close>

definition Featherless_listOptions ::
  "(string \<rightharpoonup> string) option \<Rightarrow> 's \<Rightarrow> (string \<rightharpoonup> string) option \<Rightarrow>
     ('s, string \<rightharpoonup> string) ProviderOptions"
where
  "Featherless_listOptions keys settings env =
     \<lparr>apiKeys = keys, providerSettings = settings,
      serverEnv = (case env of None \<Rightarrow> Map.empty | Some e \<Rightarrow> e),
      defaultBaseUrlKey = ''FEATHERLESS_API_BASE_URL'',
      defaultApiTokenKey = ''FEATHERLESS_API_KEY''\<rparr>"

text \<open>
  \<open>getDynamicModels(apiKeys?, settings?, serverEnv = {})\<close> (lines 49 to 138). A falsy
  base URL or key returns \<open>[]\<close> before the \<open>try\<close>; the outer \<open>catch\<close> (lines 125 to
  137) turns every exception of the \<open>try\<close> block into \<open>[]\<close>. The calls of
  \<open>console\<close> are left out.
\<close>

definition Featherless_getDynamicModels ::
  "('s, string \<rightharpoonup> string) resolver \<Rightarrow> world \<Rightarrow>
     (string \<rightharpoonup> string) option \<Rightarrow> 's \<Rightarrow> (string \<rightharpoonup> string) option \<Rightarrow> ModelInfo list promise"
where
  "Featherless_getDynamicModels getProviderBaseUrlAndKey w keys settings env =
     (case getProviderBaseUrlAndKey (Featherless_listOptions keys settings env) of
        (b, k) \<Rightarrow>
          if falsy b \<or> falsy k then Fulfilled []
          else
            (case Featherless_try w (template b) (template k) of
               Rejected e \<Rightarrow> Fulfilled []
             | r \<Rightarrow> r))"

text \<open>
  \<open>getModelInstance\<close> (lines 140 to 160): the same resolution, a thrown \<open>Error\<close> when
  the base URL or the key is falsy, and otherwise the handle that
  \<open>getOpenAILikeModel\<close> builds from the three strings.
\<close>

definition Featherless_instanceOptions ::
  "'e \<Rightarrow> (string \<rightharpoonup> string) option \<Rightarrow> 's \<Rightarrow> ('s, 'e) ProviderOptions"
where
  "Featherless_instanceOptions env keys settings =
     \<lparr>apiKeys = keys, providerSettings = settings, serverEnv = env,
      defaultBaseUrlKey = ''FEATHERLESS_API_BASE_URL'',
      defaultApiTokenKey = ''FEATHERLESS_API_KEY''\<rparr>"

definition Featherless_getModelInstance ::
  "('s, 'e) resolver \<Rightarrow> string \<Rightarrow> 'e \<Rightarrow> (string \<rightharpoonup> string) option \<Rightarrow> 's \<Rightarrow>
     js_error + LanguageModelV1"
where
  "Featherless_getModelInstance getProviderBaseUrlAndKey mdl env keys settings =
     (case getProviderBaseUrlAndKey (Featherless_instanceOptions env keys settings) of
        (b, k) \<Rightarrow>
          if falsy b \<or> falsy k
          then Inl (Error ''No base URL or API key configured for Featherless'')
          else Inr (OpenAILikeModel (template b) (template k) mdl))"

section \<open>The Ollama adapter\<close>

definition Ollama_name :: string where
  "Ollama_name = ''Ollama''"

definition Ollama_staticModels :: "ModelInfo list" where
  "Ollama_staticModels = []"

text \<open>The callback of \<open>data.models.map\<close> (lines 29 to 34).\<close>

definition Ollama_toModelInfo :: "jsval \<Rightarrow> js_error + ModelInfo" where
  "Ollama_toModelInfo m =
     (case js_get m ''name'' of
        Inl e \<Rightarrow> Inl e
      | Inr n \<Rightarrow> Inr \<lparr>name = n, label = n, provider = Ollama_name, maxTokenAllowed = JNum 4096\<rparr>)"

text \<open>
  \<open>data.models.map(...)\<close> with no check before it: reading \<open>models\<close> of \<open>null\<close> throws,
  and so does calling \<open>map\<close> on anything but an array (on \<open>undefined\<close> and \<open>null\<close> the
  property read fails, on every other value of a JSON document \<open>map\<close> is not a
  function).
\<close>

definition Ollama_modelsOfData :: "jsval \<Rightarrow> js_error + ModelInfo list" where
  "Ollama_modelsOfData d =
     (case js_get d ''models'' of
        Inl e \<Rightarrow> Inl e
      | Inr ms \<Rightarrow>
          (case ms of JArr vs \<Rightarrow> map_throwing Ollama_toModelInfo vs | _ \<Rightarrow> Inl TypeError))"

definition Ollama_request :: "string option \<Rightarrow> request" where
  "Ollama_request b = \<lparr>url = template b @ ''/api/tags'', headers = []\<rparr>"

text \<open>The options of lines 18 to 24, with \<open>serverEnv: {}\<close>.\<close>

definition Ollama_listOptions ::
  "(string \<rightharpoonup> string) option \<Rightarrow> 's \<Rightarrow> ('s, string \<rightharpoonup> string) ProviderOptions"
where
  "Ollama_listOptions keys settings =
     \<lparr>apiKeys = keys, providerSettings = settings, serverEnv = Map.empty,
      defaultBaseUrlKey = ''OLLAMA_API_BASE_URL'', defaultApiTokenKey = ''''\<rparr>"

text \<open>
  \<open>getDynamicModels(apiKeys?, settings?)\<close> (lines 16 to 39). The declaration has two
  parameters, and the resolver is given \<open>serverEnv: {}\<close> (lines 18 to 24). \<open>fetch\<close> is
  called with the URL alone. The \<open>catch\<close> logs and throws the same error again, so
  every rejection and exception of the body is the caller's.
\<close>

definition Ollama_getDynamicModels ::
  "('s, string \<rightharpoonup> string) resolver \<Rightarrow> world \<Rightarrow>
     (string \<rightharpoonup> string) option \<Rightarrow> 's \<Rightarrow> ModelInfo list promise"
where
  "Ollama_getDynamicModels getProviderBaseUrlAndKey w keys settings =
     (case getProviderBaseUrlAndKey (Ollama_listOptions keys settings) of
        (b, k) \<Rightarrow>
          (case fetch w (Ollama_request b) None of
             Pending \<Rightarrow> Pending
           | Rejected e \<Rightarrow> Rejected e
           | Fulfilled response \<Rightarrow>
               (case response_json response of
                  Pending \<Rightarrow> Pending
                | Rejected e \<Rightarrow> Rejected e
                | Fulfilled d \<Rightarrow>
                    (case Ollama_modelsOfData d of
                       Inl e \<Rightarrow> Rejected e
                     | Inr ms \<Rightarrow> Fulfilled ms))))"

text \<open>
  A call \<open>provider.getDynamicModels(apiKeys, settings, serverEnv)\<close>, the way the
  Featherless adapter is called, made on the Ollama adapter: JavaScript binds the first
  two arguments and drops the third, for which the declaration has no parameter.
\<close>

definition Ollama_getDynamicModels_call ::
  "('s, string \<rightharpoonup> string) resolver \<Rightarrow> world \<Rightarrow>
     (string \<rightharpoonup> string) option \<Rightarrow> 's \<Rightarrow> 'x \<Rightarrow> ModelInfo list promise"
where
  "Ollama_getDynamicModels_call getProviderBaseUrlAndKey w keys settings env =
     Ollama_getDynamicModels getProviderBaseUrlAndKey w keys settings"

text \<open>
  \<open>getModelInstance\<close> (lines 41 to 63): no check of what was resolved; the instance is
  made with \<open>numCtx: 4096\<close> and its \<open>config.baseURL\<close> set to \<open>`${baseUrl}/api`\<close>.
\<close>

definition Ollama_instanceOptions ::
  "'e \<Rightarrow> (string \<rightharpoonup> string) option \<Rightarrow> 's \<Rightarrow> ('s, 'e) ProviderOptions"
where
  "Ollama_instanceOptions env keys settings =
     \<lparr>apiKeys = keys, providerSettings = settings, serverEnv = env,
      defaultBaseUrlKey = ''OLLAMA_API_BASE_URL'', defaultApiTokenKey = ''''\<rparr>"

definition Ollama_getModelInstance ::
  "('s, 'e) resolver \<Rightarrow> string \<Rightarrow> 'e \<Rightarrow> (string \<rightharpoonup> string) option \<Rightarrow> 's \<Rightarrow>
     js_error + LanguageModelV1"
where
  "Ollama_getModelInstance getProviderBaseUrlAndKey mdl env keys settings =
     (case getProviderBaseUrlAndKey (Ollama_instanceOptions env keys settings) of
        (b, k) \<Rightarrow> Inr (OllamaInstance mdl 4096 (template b @ ''/api'')))"

section \<open>The chat orchestrator\<close>

text \<open>
  \<open>IProviderSetting\<close>, as \<open>ChatImpl\<close> builds it: \<open>{ enabled, baseUrl }\<close>, the base URL a
  string or \<open>undefined\<close>.
\<close>

record IProviderSetting =
  enabled :: bool
  baseUrl :: "string option"

text \<open>
  The state that \<open>fetchModels\<close> reads and writes: the hooks \<open>model\<close>, \<open>provider\<close> (of
  which only \<open>provider.name\<close> is read; \<open>None\<close> when there is no provider), \<open>apiKeys\<close>,
  \<open>modelList\<close> and \<open>modelLoading\<close>, the cookie jar of \<open>js-cookie\<close> (the value last
  written under each key) and the error toasts shown. The first three fields carry the
  prefix \<open>chat\<close> because \<open>provider\<close> and \<open>apiKeys\<close> are fields of other records here.
\<close>

record chat =
  chatModel :: jsval
  chatProvider :: "string option"
  chatApiKeys :: "string \<rightharpoonup> string"
  modelList :: "ModelInfo list"
  modelLoading :: "string option"
  cookies :: "string \<rightharpoonup> jsval"
  toasts :: "string list"

text \<open>
  The state of \<open>ChatImpl\<close> at its first render (lines 169 to 181): \<open>modelList\<close> is
  \<open>[]\<close>, \<open>modelLoading\<close> is \<open>undefined\<close> and \<open>apiKeys\<close> is \<open>{}\<close>. The initial model and
  provider are what the two initialisers computed from the cookies and from
  \<open>DEFAULT_MODEL\<close>, \<open>PROVIDER_LIST\<close> and \<open>DEFAULT_PROVIDER\<close> of \<open>~/utils/constants\<close>, which
  is not among the sources: they are parameters, with the cookie jar. \<open>modelList\<close> is
  what the component hands to \<open>ModelSelector\<close> to display (line 288).
\<close>

definition ChatImpl_initial :: "jsval \<Rightarrow> string option \<Rightarrow> (string \<rightharpoonup> jsval) \<Rightarrow> chat" where
  "ChatImpl_initial mdl prov jar =
     \<lparr>chatModel = mdl, chatProvider = prov, chatApiKeys = Map.empty, modelList = [],
      modelLoading = None, cookies = jar, toasts = []\<rparr>"

text \<open>The \<open>providerSettings\<close> object of lines 192 to 197, one entry under the provider's name.\<close>

definition chat_providerSettings :: "string \<Rightarrow> (string \<rightharpoonup> IProviderSetting)" where
  "chat_providerSettings p =
     [p \<mapsto> \<lparr>enabled = True,
             baseUrl = (if p = ''Ollama'' then Some ''http://localhost:11434'' else None)\<rparr>]"

text \<open>
  \<open>getModelList\<close> is imported from \<open>~/utils/constants\<close>, which is not among the sources:
  it is a parameter, a function from \<open>apiKeys\<close> and \<open>providerSettings\<close> to a promise of
  the list (\<open>None\<close> for a falsy result, which \<open>if (models)\<close> skips).
\<close>

type_synonym getModelList =
  "(string \<rightharpoonup> string) \<Rightarrow> (string \<rightharpoonup> IProviderSetting) \<Rightarrow> ModelInfo list option promise"

text \<open>
  The selection step of lines 205 to 216, on the fetched list: replace the list, and if
  no entry has both the current model's name and the provider's name, take the first
  entry of the provider, when there is one, as the model and write it to the cookie.
  \<open>===\<close> is equality of values (names are strings).
\<close>

definition selectModel :: "string \<Rightarrow> ModelInfo list \<Rightarrow> chat \<Rightarrow> chat" where
  "selectModel p models s =
     (let s1 = s\<lparr>modelList := models\<rparr>;
          currentModelExists = list_ex (\<lambda>m. name m = chatModel s \<and> provider m = p) models
      in if \<not> currentModelExists then
           (case find (\<lambda>m. provider m = p) models of
              None \<Rightarrow> s1
            | Some firstModel \<Rightarrow>
                s1\<lparr>chatModel := name firstModel,
                   cookies := (cookies s1)(''selectedModel'' \<mapsto> name firstModel)\<rparr>)
         else s1)"

text \<open>
  \<open>fetchModels\<close> (lines 184 to 224), the effect that runs when \<open>provider\<close>, \<open>apiKeys\<close>
  or \<open>model\<close> changed. While \<open>getModelList\<close> has not settled the loading flag stays
  set; a rejection shows the toast; \<open>finally\<close> clears the flag.
\<close>

definition fetchModels :: "getModelList \<Rightarrow> chat \<Rightarrow> chat" where
  "fetchModels getModelList s =
     (case chatProvider s of
        None \<Rightarrow> s
      | Some p \<Rightarrow>
          (let s1 = s\<lparr>modelLoading := Some p\<rparr> in
           case getModelList (chatApiKeys s) (chat_providerSettings p) of
             Pending \<Rightarrow> s1
           | Rejected e \<Rightarrow>
               s1\<lparr>toasts := toasts s1 @
                     [''Failed to fetch available models. Please check your provider settings.''],
                  modelLoading := None\<rparr>
           | Fulfilled None \<Rightarrow> s1\<lparr>modelLoading := None\<rparr>
           | Fulfilled (Some models) \<Rightarrow> (selectModel p models s1)\<lparr>modelLoading := None\<rparr>))"

section \<open>Kinds of listing response, and concrete inputs\<close>

text \<open>
  A parsed document lacks the models array when reading \<open>models\<close> fails or gives
  anything but an array.
\<close>

definition lacks_models_array :: "jsval \<Rightarrow> bool" where
  "lacks_models_array d = (case js_get d ''models'' of Inl e \<Rightarrow> True | Inr ms \<Rightarrow> \<not> isArray ms)"

text \<open>
  A faulty answer: the network fails (before the response or while its body is read),
  the body is not JSON, or the document lacks the models array.
\<close>

definition faulty :: "server \<Rightarrow> bool" where
  "faulty sv =
     (case sv of
        Unreachable \<Rightarrow> True
      | NoReply \<Rightarrow> False
      | Responds t r \<Rightarrow>
          (case body r of
             Pending \<Rightarrow> False
           | Rejected e \<Rightarrow> True
           | Fulfilled NotJson \<Rightarrow> True
           | Fulfilled (Json d) \<Rightarrow> lacks_models_array d))"

text \<open>A response with a non-success status whose body can be read to its end.\<close>

definition not_ok_response :: "server \<Rightarrow> bool" where
  "not_ok_response sv =
     (case sv of
        Responds t r \<Rightarrow> \<not> ok r \<and> (case body r of Fulfilled p \<Rightarrow> True | _ \<Rightarrow> False)
      | _ \<Rightarrow> False)"

text \<open>An answer that has not arrived \<open>d\<close> milliseconds after the request.\<close>

definition exceeds :: "nat \<Rightarrow> server \<Rightarrow> bool" where
  "exceeds d sv = (case sv of Unreachable \<Rightarrow> False | NoReply \<Rightarrow> True | Responds t r \<Rightarrow> d < t)"

text \<open>Resolvers: nothing configured; a Featherless account; a local Ollama without a key.\<close>

definition nothing_configured :: "('s, 'e) resolver" where
  "nothing_configured opts = (None, None)"

definition featherless_account :: "('s, 'e) resolver" where
  "featherless_account opts = (Some ''https://api.featherless.ai/v1'', Some ''secret'')"

definition local_ollama :: "('s, 'e) resolver" where
  "local_ollama opts = (Some ''http://localhost:11434'', None)"

text \<open>
  A resolver that does consult the server environment: the base URL is the variable
  named by \<open>defaultBaseUrlKey\<close> when it is set, and the local default otherwise.
\<close>

definition env_first :: "('s, string \<rightharpoonup> string) resolver" where
  "env_first opts =
     (case serverEnv opts (defaultBaseUrlKey opts) of
        None \<Rightarrow> (Some ''http://localhost:11434'', None)
      | Some u \<Rightarrow> (Some u, None))"

text \<open>Worlds that treat every request alike.\<close>

definition unreachable :: world where
  "unreachable rq = Unreachable"

definition silent :: world where
  "silent rq = NoReply"

definition answering :: "nat \<Rightarrow> http_response \<Rightarrow> world" where
  "answering t r rq = Responds t r"

text \<open>The documents of the two examples, and the first without its context length.\<close>

definition m1_listing :: jsval where
  "m1_listing =
     JObj [(''models'',
       JArr [JObj [(''id'', JStr ''m1''),
                   (''details'', JObj [(''name'', JStr ''Model One''), (''size'', JStr ''7B''),
                                       (''context_length'', JNum 8192)])]])]"

definition m1_listing_no_context :: jsval where
  "m1_listing_no_context =
     JObj [(''models'',
       JArr [JObj [(''id'', JStr ''m1''),
                   (''details'', JObj [(''name'', JStr ''Model One''), (''size'', JStr ''7B'')])]])]"

definition llama2_listing :: jsval where
  "llama2_listing = JObj [(''models'', JArr [JObj [(''name'', JStr ''llama2'')]])]"

definition ok_json :: "jsval \<Rightarrow> http_response" where
  "ok_json d = \<lparr>ok = True, body = Fulfilled (Json d)\<rparr>"

text \<open>A success response whose body is not JSON, and an error response.\<close>

definition not_json_response :: http_response where
  "not_json_response = \<lparr>ok = True, body = Fulfilled NotJson\<rparr>"

definition error_response :: http_response where
  "error_response = \<lparr>ok = False, body = Fulfilled NotJson\<rparr>"

text \<open>A chat whose saved model is not one of the new provider's.\<close>

definition chat0 :: chat where
  "chat0 =
     \<lparr>chatModel = JStr ''claude-3-5-sonnet-latest'', chatProvider = Some ''Ollama'',
      chatApiKeys = Map.empty, modelList = [], modelLoading = None,
      cookies = Map.empty, toasts = []\<rparr>"

definition fetched_models :: "ModelInfo list" where
  "fetched_models =
     [\<lparr>name = JStr ''m1'', label = JStr ''Model One (7B)'', provider = ''Featherless'',
       maxTokenAllowed = JNum 8192\<rparr>,
      \<lparr>name = JStr ''llama2'', label = JStr ''llama2'', provider = ''Ollama'',
       maxTokenAllowed = JNum 4096\<rparr>,
      \<lparr>name = JStr ''mistral'', label = JStr ''mistral'', provider = ''Ollama'',
       maxTokenAllowed = JNum 4096\<rparr>]"

definition two_providers :: getModelList where
  "two_providers keys settings = Fulfilled (Some fetched_models)"

text \<open>A fetch of the model list that has not settled.\<close>

definition never_settles :: getModelList where
  "never_settles keys settings = Pending"

text \<open>Arguments of a call that passes no keys and no settings, and a server environment.\<close>

definition no_keys :: "(string \<rightharpoonup> string) option" where
  "no_keys = None"

definition no_settings :: "IProviderSetting option" where
  "no_settings = None"

definition remote_env :: "string \<rightharpoonup> string" where
  "remote_env = [''OLLAMA_API_BASE_URL'' \<mapsto> ''http://10.0.0.7:11434'']"

definition no_env :: "string \<rightharpoonup> string" where
  "no_env = Map.empty"

text \<open>
  The \<open>providerSettings\<close> argument of \<open>getModelInstance\<close>, a record of settings by
  provider name.
\<close>

definition ollama_settings :: "(string \<rightharpoonup> IProviderSetting) option" where
  "ollama_settings = Some (chat_providerSettings ''Ollama'')"

text \<open>Single backend records, and the \<open>ModelInfo\<close> of the two examples.\<close>

definition m1_record :: jsval where
  "m1_record =
     JObj [(''id'', JStr ''m1''),
           (''details'', JObj [(''name'', JStr ''Model One''), (''size'', JStr ''7B''),
                               (''context_length'', JNum 8192)])]"

definition m1_record_no_context :: jsval where
  "m1_record_no_context =
     JObj [(''id'', JStr ''m1''),
           (''details'', JObj [(''name'', JStr ''Model One''), (''size'', JStr ''7B'')])]"

definition llama2_record :: jsval where
  "llama2_record = JObj [(''name'', JStr ''llama2''), (''context_length'', JNum 8192)]"

definition m1_info :: ModelInfo where
  "m1_info = \<lparr>name = JStr ''m1'', label = JStr ''Model One (7B)'', provider = ''Featherless'',
               maxTokenAllowed = JNum 8192\<rparr>"

definition llama2_info :: ModelInfo where
  "llama2_info = \<lparr>name = JStr ''llama2'', label = JStr ''llama2'', provider = ''Ollama'',
                   maxTokenAllowed = JNum 4096\<rparr>"

section \<open>Properties\<close>

subsection \<open>Helper facts\<close>

text \<open>The conversion to a string, evaluated: numbers, nesting, and an object that throws.\<close>

lemma Rep_JNum:
  "\<bar>n\<bar> < 2 ^ 53 \<Longrightarrow> Rep_safe_integer (Abs_safe_integer n) = n"
  by (simp add: Abs_safe_integer_inverse)

lemma js_to_string_nested:
  "js_to_string (JArr [JNum 12, JNull, JStr ''a'', JArr [JNum (- 305), JBool True], JObj []])
     = Inr ''12,,a,-305,true,[object Object]''"
  by (simp add: Number_toString_def Rep_JNum)

lemma js_to_string_own_toString:
  "js_to_string (JArr [JNum 12, JObj [(''toString'', JNum 1)]]) = Inl TypeError"
  by (simp add: Number_toString_def Rep_JNum)

lemma map_throwing_all:
  "map_throwing f xs = Inr ys \<Longrightarrow> (\<And>x y. f x = Inr y \<Longrightarrow> P y) \<Longrightarrow> y \<in> set ys \<Longrightarrow> P y"
  by (induction xs arbitrary: ys) (auto split: sum.splits)

text \<open>The Featherless adapter: the guard, the \<open>try\<close> block and the \<open>catch\<close>.\<close>

lemma Featherless_never_rejects:
  "Featherless_getDynamicModels R w k s e \<noteq> Rejected err"
  by (auto simp: Featherless_getDynamicModels_def split: prod.splits promise.splits)

lemma Featherless_unconfigured:
  "R (Featherless_listOptions k s e) = (b, a) \<Longrightarrow> falsy b \<or> falsy a \<Longrightarrow>
   Featherless_getDynamicModels R w k s e = Fulfilled []"
  by (auto simp: Featherless_getDynamicModels_def)

lemma Featherless_lacks:
  "lacks_models_array d \<Longrightarrow>
   Featherless_modelsOfData d = Inr [] \<or> (\<exists>err. Featherless_modelsOfData d = Inl err)"
  by (cases "js_get d ''models''") (simp_all add: lacks_models_array_def Featherless_modelsOfData_def)

lemma Ollama_lacks:
  "lacks_models_array d \<Longrightarrow> \<exists>err. Ollama_modelsOfData d = Inl err"
proof (cases "js_get d ''models''")
  case (Inl e)
  then show ?thesis by (simp add: Ollama_modelsOfData_def)
next
  case (Inr ms)
  assume "lacks_models_array d"
  with Inr have "\<not> isArray ms" by (simp add: lacks_models_array_def)
  then have "(case ms of JArr vs \<Rightarrow> map_throwing Ollama_toModelInfo vs | _ \<Rightarrow> Inl TypeError) = Inl TypeError"
    by (cases ms) simp_all
  with Inr show ?thesis by (simp add: Ollama_modelsOfData_def)
qed


lemma Featherless_try_faulty:
  assumes "faulty (w (Featherless_request b a))"
  shows "Featherless_try w b a = Fulfilled [] \<or> (\<exists>err. Featherless_try w b a = Rejected err)"
proof (cases "w (Featherless_request b a)")
  case Unreachable
  then show ?thesis by (simp add: Featherless_try_def fetch_def)
next
  case NoReply
  then show ?thesis by (simp add: Featherless_try_def fetch_def)
next
  case (Responds t r)
  show ?thesis
  proof (cases "body r")
    case Pending
    with assms Responds show ?thesis by (simp add: faulty_def)
  next
    case (Rejected x)
    with Responds show ?thesis by (simp add: Featherless_try_def fetch_def)
  next
    case (Fulfilled p)
    show ?thesis
    proof (cases p)
      case NotJson
      with Responds Fulfilled show ?thesis by (simp add: Featherless_try_def fetch_def)
    next
      case (Json d)
      with assms Responds Fulfilled have "lacks_models_array d" by (simp add: faulty_def)
      from Featherless_lacks [OF this] Responds Fulfilled Json show ?thesis
        by (auto simp: Featherless_try_def fetch_def)
    qed
  qed
qed

lemma Featherless_try_not_ok:
  "not_ok_response (w (Featherless_request b a)) \<Longrightarrow>
   Featherless_try w b a = Fulfilled [] \<or> (\<exists>err. Featherless_try w b a = Rejected err)"
  by (auto simp: not_ok_response_def Featherless_try_def fetch_def
      split: server.splits promise.splits)

lemma Featherless_try_exceeds:
  "exceeds 5000 (w (Featherless_request b a)) \<Longrightarrow> Featherless_try w b a = Rejected AbortError"
  by (auto simp: exceeds_def Featherless_try_def fetch_def split: server.splits)

lemma Featherless_catch:
  "R (Featherless_listOptions k s e) = (b, a) \<Longrightarrow>
   Featherless_try w (template b) (template a) = Fulfilled [] \<or>
     (\<exists>err. Featherless_try w (template b) (template a) = Rejected err) \<Longrightarrow>
   Featherless_getDynamicModels R w k s e = Fulfilled []"
  by (auto simp: Featherless_getDynamicModels_def)


lemma Ollama_faulty:
  assumes r: "R (Ollama_listOptions k s) = (b, a)" and f: "faulty (w (Ollama_request b))"
  shows "\<exists>err. Ollama_getDynamicModels R w k s = Rejected err"
proof (cases "w (Ollama_request b)")
  case Unreachable
  with r show ?thesis by (simp add: Ollama_getDynamicModels_def fetch_def)
next
  case NoReply
  with f show ?thesis by (simp add: faulty_def)
next
  case (Responds t rsp)
  show ?thesis
  proof (cases "body rsp")
    case Pending
    with f Responds show ?thesis by (simp add: faulty_def)
  next
    case (Rejected x)
    with r Responds show ?thesis
      by (simp add: Ollama_getDynamicModels_def fetch_def response_json_def)
  next
    case (Fulfilled p)
    show ?thesis
    proof (cases p)
      case NotJson
      with r Responds Fulfilled show ?thesis
        by (simp add: Ollama_getDynamicModels_def fetch_def response_json_def)
    next
      case (Json d)
      with f Responds Fulfilled have "lacks_models_array d" by (simp add: faulty_def)
      from Ollama_lacks [OF this] r Responds Fulfilled Json show ?thesis
        by (auto simp: Ollama_getDynamicModels_def fetch_def response_json_def)
    qed
  qed
qed

text \<open>The mapping of one record, and the provider stamped on every result.\<close>

lemma Featherless_toModelInfo_context:
  "Featherless_toModelInfo m = Inr mi \<Longrightarrow>
   \<exists>d. js_get m ''details'' = Inr d \<and> js_get d ''context_length'' = Inr (maxTokenAllowed mi)"
  by (auto simp: Featherless_toModelInfo_def split: sum.splits)

lemma Featherless_toModelInfo_no_context:
  assumes "js_get m ''details'' = Inr (JObj ds)" and "map_of ds ''context_length'' = None"
      and "js_get (JObj ds) ''name'' = Inr n" and "js_to_string n = Inr ns"
      and "js_get (JObj ds) ''size'' = Inr z" and "js_to_string z = Inr zs"
  shows "\<exists>mi. Featherless_toModelInfo m = Inr mi \<and> maxTokenAllowed mi = JUndefined"
proof -
  from assms(1) obtain i where "js_get m ''id'' = Inr i"
    by (cases m) auto
  moreover have "js_get (JObj ds) ''context_length'' = Inr JUndefined"
    using assms(2) by simp
  ultimately show ?thesis
    using assms(1,3-6) by (simp only: Featherless_toModelInfo_def) simp
qed

text \<open>
  A record whose name cannot be converted to a string is not mapped: the template
  literal throws, and the \<open>catch\<close> of \<open>getDynamicModels\<close> returns \<open>[]\<close> for the listing
  that contains the record.
\<close>

lemma Featherless_toModelInfo_unprintable:
  "Featherless_toModelInfo
     (JObj [(''id'', JStr ''m1''),
            (''details'', JObj [(''name'', JObj [(''toString'', JNum 1)]), (''size'', JStr ''7B'')])])
   = Inl TypeError"
  by (simp add: Featherless_toModelInfo_def)

lemma Featherless_listing_unprintable:
  "Featherless_getDynamicModels featherless_account
     (answering 120 (ok_json (JObj [(''models'', JArr
        [JObj [(''id'', JStr ''m1''),
               (''details'', JObj [(''name'', JObj [(''toString'', JNum 1)]),
                                   (''size'', JStr ''7B'')])]])])))
     no_keys no_settings None
   = Fulfilled []"
  by (simp add: Featherless_getDynamicModels_def Featherless_try_def fetch_def
      Featherless_modelsOfData_def Featherless_toModelInfo_def featherless_account_def
      answering_def ok_json_def)

lemma Featherless_provider:
  assumes "Featherless_getDynamicModels R w k s e = Fulfilled ms" and "m \<in> set ms"
  shows "provider m = Featherless_name"
proof -
  have one: "\<And>x y. Featherless_toModelInfo x = Inr y \<Longrightarrow> provider y = Featherless_name"
    by (auto simp: Featherless_toModelInfo_def split: sum.splits)
  have data: "\<And>d ms. Featherless_modelsOfData d = Inr ms \<Longrightarrow> m \<in> set ms \<Longrightarrow> provider m = Featherless_name"
  proof -
    fix d ms assume a: "Featherless_modelsOfData d = Inr ms" and b: "m \<in> set ms"
    show "provider m = Featherless_name"
    proof (cases "js_get d ''models''")
      case (Inl x) with a show ?thesis by (simp add: Featherless_modelsOfData_def)
    next
      case (Inr v)
      show ?thesis
      proof (cases v)
        case (JArr vs)
        with a Inr have "map_throwing Featherless_toModelInfo vs = Inr ms"
          by (simp add: Featherless_modelsOfData_def)
        from map_throwing_all [OF this one b] show ?thesis .
      qed (use a b Inr in \<open>simp_all add: Featherless_modelsOfData_def\<close>)
    qed
  qed
  have tr: "\<And>b a. Featherless_try w b a = Fulfilled ms \<Longrightarrow> provider m = Featherless_name"
    using assms(2) data
    by (auto simp: Featherless_try_def split: promise.splits if_splits payload.splits sum.splits)
  from assms show ?thesis
    by (auto simp: Featherless_getDynamicModels_def split: prod.splits if_splits promise.splits dest: tr)
qed

lemma Ollama_provider:
  assumes "Ollama_getDynamicModels R w k s = Fulfilled ms" and "m \<in> set ms"
  shows "provider m = Ollama_name"
proof -
  have one: "\<And>x y. Ollama_toModelInfo x = Inr y \<Longrightarrow> provider y = Ollama_name"
    by (auto simp: Ollama_toModelInfo_def split: sum.splits)
  have data: "\<And>d. Ollama_modelsOfData d = Inr ms \<Longrightarrow> provider m = Ollama_name"
  proof -
    fix d assume a: "Ollama_modelsOfData d = Inr ms"
    show "provider m = Ollama_name"
    proof (cases "js_get d ''models''")
      case (Inl x) with a show ?thesis by (simp add: Ollama_modelsOfData_def)
    next
      case (Inr v)
      show ?thesis
      proof (cases v)
        case (JArr vs)
        with a Inr have "map_throwing Ollama_toModelInfo vs = Inr ms"
          by (simp add: Ollama_modelsOfData_def)
        from map_throwing_all [OF this one assms(2)] show ?thesis .
      qed (use a Inr in \<open>simp_all add: Ollama_modelsOfData_def\<close>)
    qed
  qed
  from assms(1) show ?thesis
    by (auto simp: Ollama_getDynamicModels_def split: prod.splits promise.splits sum.splits dest: data)
qed

text \<open>The selection step of the chat.\<close>

lemma find_first:
  "i < length xs \<Longrightarrow> P (xs ! i) \<Longrightarrow> (\<forall>j<i. \<not> P (xs ! j)) \<Longrightarrow> find P xs = Some (xs ! i)"
  by (auto simp: find_Some_iff)

lemma selectModel_first:
  assumes absent: "\<forall>m \<in> set models. \<not> (name m = chatModel s \<and> provider m = p)"
      and fnd: "find (\<lambda>m. provider m = p) models = Some m"
  shows "selectModel p models s =
           s\<lparr>modelList := models, chatModel := name m,
              cookies := (cookies s)(''selectedModel'' \<mapsto> name m)\<rparr>"
  using assms by (simp add: selectModel_def list_ex_iff Let_def)

lemma fetchModels_no_model_of_provider:
  assumes "chatProvider s = Some p"
      and "getModelList (chatApiKeys s) (chat_providerSettings p) = Fulfilled (Some models)"
      and "\<forall>m \<in> set models. provider m \<noteq> p"
  shows "fetchModels getModelList s = s\<lparr>modelList := models, modelLoading := None\<rparr>"
proof -
  have "find (\<lambda>m. provider m = p) models = None"
    using assms(3) by (simp add: find_None_iff)
  moreover have "\<not> list_ex (\<lambda>m. name m = chatModel s \<and> provider m = p) models"
    using assms(3) by (auto simp: list_ex_iff)
  ultimately show ?thesis
    using assms(1,2) by (simp add: fetchModels_def selectModel_def Let_def)
qed

text \<open>As long as no fetched list has arrived, the chat's list is the one it had.\<close>

lemma fetchModels_keeps_list:
  assumes "\<forall>ms. getModelList (chatApiKeys s) (chat_providerSettings p) \<noteq> Fulfilled (Some ms)"
      and "chatProvider s = Some p"
  shows "modelList (fetchModels getModelList s) = modelList s"
proof (cases "getModelList (chatApiKeys s) (chat_providerSettings p)")
  case Pending
  with assms(2) show ?thesis by (simp add: fetchModels_def)
next
  case (Rejected e)
  with assms(2) show ?thesis by (simp add: fetchModels_def)
next
  case (Fulfilled r)
  with assms(1) have "r = None" by (cases r) auto
  with Fulfilled assms(2) show ?thesis by (simp add: fetchModels_def)
qed

text \<open>The Featherless adapter, for comparison, has static models.\<close>

lemma Featherless_staticModels_two:
  "length Featherless_staticModels = 2"
  by (simp add: Featherless_staticModels_def)

subsection \<open>The two example listings\<close>

text \<open>
  C5. For the Featherless adapter, a successful listing response (resolved, non-empty
  base URL and key; a response within the 5 seconds, with a success status) whose body
  is \<open>{"models":[{"id":"m1","details":{"name":"Model One","size":"7B","context_length":8192}}]}\<close>
  gives exactly one \<open>ModelInfo\<close>: name \<open>m1\<close>, label \<open>Model One (7B)\<close>, provider
  \<open>Featherless\<close>, \<open>maxTokenAllowed\<close> 8192.
\<close>

theorem Featherless_m1_listing:
  "R (Featherless_listOptions k s e) = (Some b, Some a) \<Longrightarrow> b \<noteq> [] \<Longrightarrow> a \<noteq> [] \<Longrightarrow>
   w (Featherless_request b a) = Responds t r \<Longrightarrow> t < 5000 \<Longrightarrow> ok r \<Longrightarrow>
   body r = Fulfilled (Json m1_listing) \<Longrightarrow>
   Featherless_getDynamicModels R w k s e =
     Fulfilled [\<lparr>name = JStr ''m1'', label = JStr ''Model One (7B)'', provider = ''Featherless'',
                 maxTokenAllowed = JNum 8192\<rparr>]"
  by (simp add: Featherless_getDynamicModels_def Featherless_try_def fetch_def
      Featherless_modelsOfData_def Featherless_toModelInfo_def Featherless_name_def m1_listing_def)

theorem Featherless_m1_listing_witness:
  "Featherless_getDynamicModels featherless_account (answering 120 (ok_json m1_listing))
     no_keys no_settings None =
     Fulfilled [\<lparr>name = JStr ''m1'', label = JStr ''Model One (7B)'', provider = ''Featherless'',
                 maxTokenAllowed = JNum 8192\<rparr>]"
  by (rule Featherless_m1_listing
        [of featherless_account no_keys no_settings None
            "''https://api.featherless.ai/v1''" "''secret''"
            "answering 120 (ok_json m1_listing)" 120 "ok_json m1_listing"])
     (simp_all add: featherless_account_def answering_def ok_json_def)

text \<open>
  C6. For the Ollama adapter, a listing response whose body is
  \<open>{"models":[{"name":"llama2"}]}\<close> gives exactly one \<open>ModelInfo\<close>: name \<open>llama2\<close>,
  label \<open>llama2\<close>, provider \<open>Ollama\<close>, \<open>maxTokenAllowed\<close> 4096.
\<close>

theorem Ollama_llama2_listing:
  "R (Ollama_listOptions k s) = (b, a) \<Longrightarrow> w (Ollama_request b) = Responds t r \<Longrightarrow> ok r \<Longrightarrow>
   body r = Fulfilled (Json llama2_listing) \<Longrightarrow>
   Ollama_getDynamicModels R w k s =
     Fulfilled [\<lparr>name = JStr ''llama2'', label = JStr ''llama2'', provider = ''Ollama'',
                 maxTokenAllowed = JNum 4096\<rparr>]"
  by (simp add: Ollama_getDynamicModels_def fetch_def response_json_def
      Ollama_modelsOfData_def Ollama_toModelInfo_def Ollama_name_def llama2_listing_def)

theorem Ollama_llama2_listing_witness:
  "Ollama_getDynamicModels local_ollama (answering 20 (ok_json llama2_listing))
     no_keys no_settings =
     Fulfilled [\<lparr>name = JStr ''llama2'', label = JStr ''llama2'', provider = ''Ollama'',
                 maxTokenAllowed = JNum 4096\<rparr>]"
  by (rule Ollama_llama2_listing
        [of local_ollama no_keys no_settings "Some ''http://localhost:11434''" None
            "answering 20 (ok_json llama2_listing)" 20 "ok_json llama2_listing"])
     (simp_all add: local_ollama_def answering_def ok_json_def)

subsection \<open>Static models and the server environment of the Ollama adapter\<close>

text \<open>
  C10. The Ollama adapter's \<open>staticModels\<close> is the empty sequence, so for this provider
  no model is available to display before the first dynamic fetch completes: the chat
  starts with an empty \<open>modelList\<close>; with Ollama selected, \<open>fetchModels\<close> leaves it empty
  for as long as no fetched list has arrived, and the loading flag set while the fetch
  is pending; and the adapter's static models add nothing to it.
\<close>

theorem Ollama_nothing_to_show_before_fetch:
  "Ollama_staticModels = []
   \<and> modelList (ChatImpl_initial mdl prov jar) = []
   \<and> ((\<forall>ms. getModelList Map.empty (chat_providerSettings Ollama_name) \<noteq> Fulfilled (Some ms)) \<longrightarrow>
        Ollama_staticModels
          @ modelList (fetchModels getModelList (ChatImpl_initial mdl (Some Ollama_name) jar)) = [])
   \<and> (getModelList Map.empty (chat_providerSettings Ollama_name) = Pending \<longrightarrow>
        modelLoading (fetchModels getModelList (ChatImpl_initial mdl (Some Ollama_name) jar))
          = Some Ollama_name)"
proof (intro conjI impI)
  show "Ollama_staticModels = []" by (simp add: Ollama_staticModels_def)
next
  show "modelList (ChatImpl_initial mdl prov jar) = []" by (simp add: ChatImpl_initial_def)
next
  assume h: "\<forall>ms. getModelList Map.empty (chat_providerSettings Ollama_name) \<noteq> Fulfilled (Some ms)"
  have "modelList (fetchModels getModelList (ChatImpl_initial mdl (Some Ollama_name) jar))
          = modelList (ChatImpl_initial mdl (Some Ollama_name) jar)"
    by (rule fetchModels_keeps_list [where p = Ollama_name])
       (use h in \<open>simp_all add: ChatImpl_initial_def\<close>)
  then show "Ollama_staticModels
          @ modelList (fetchModels getModelList (ChatImpl_initial mdl (Some Ollama_name) jar)) = []"
    by (simp add: Ollama_staticModels_def ChatImpl_initial_def)
next
  assume "getModelList Map.empty (chat_providerSettings Ollama_name) = Pending"
  then show "modelLoading (fetchModels getModelList (ChatImpl_initial mdl (Some Ollama_name) jar))
          = Some Ollama_name"
    by (simp add: fetchModels_def ChatImpl_initial_def)
qed

theorem Ollama_nothing_to_show_before_fetch_witness:
  "never_settles Map.empty (chat_providerSettings Ollama_name) = Pending
   \<and> Ollama_staticModels
         @ modelList (fetchModels never_settles
                        (ChatImpl_initial (JStr ''llama2'') (Some Ollama_name) Map.empty)) = []
   \<and> modelLoading (fetchModels never_settles
                       (ChatImpl_initial (JStr ''llama2'') (Some Ollama_name) Map.empty))
       = Some ''Ollama''"
proof -
  have p: "never_settles Map.empty (chat_providerSettings Ollama_name) = Pending"
    by (simp add: never_settles_def)
  then have q: "\<forall>ms. never_settles Map.empty (chat_providerSettings Ollama_name) \<noteq> Fulfilled (Some ms)"
    by simp
  note i = Ollama_nothing_to_show_before_fetch
             [where getModelList = never_settles and mdl = "JStr ''llama2''" and jar = Map.empty
                and prov = "Some Ollama_name"]
  have a: "Ollama_staticModels
         @ modelList (fetchModels never_settles
                        (ChatImpl_initial (JStr ''llama2'') (Some Ollama_name) Map.empty)) = []"
    using i q by blast
  have b: "modelLoading (fetchModels never_settles
                       (ChatImpl_initial (JStr ''llama2'') (Some Ollama_name) Map.empty))
       = Some ''Ollama''"
    using i p by (simp add: Ollama_name_def)
  show ?thesis by (intro conjI p a b)
qed

text \<open>
  C9. Called with a server environment as third argument, the Ollama adapter's
  \<open>getDynamicModels\<close> gives the same result for any two server environments, the keys
  and settings being the same: the options it hands to the resolver always have the
  empty server environment, so two resolvers that agree on those options give the
  same listing, whatever either would read from a server environment.
\<close>

theorem Ollama_listing_ignores_serverEnv:
  "Ollama_getDynamicModels_call R w k s env1 = Ollama_getDynamicModels_call R w k s env2
   \<and> serverEnv (Ollama_listOptions k s) = Map.empty
   \<and> (R (Ollama_listOptions k s) = R' (Ollama_listOptions k s) \<longrightarrow>
        Ollama_getDynamicModels_call R w k s env1 = Ollama_getDynamicModels_call R' w k s env2)"
  by (simp add: Ollama_getDynamicModels_call_def Ollama_getDynamicModels_def Ollama_listOptions_def)

theorem Ollama_listing_ignores_serverEnv_witness:
  "local_ollama (Ollama_listOptions no_keys no_settings)
     = env_first (Ollama_listOptions no_keys no_settings)
   \<and> env_first (Ollama_instanceOptions remote_env no_keys no_settings)
     \<noteq> env_first (Ollama_listOptions no_keys no_settings)
   \<and> Ollama_getDynamicModels_call local_ollama (answering 20 (ok_json llama2_listing))
        no_keys no_settings remote_env
     = Ollama_getDynamicModels_call env_first (answering 20 (ok_json llama2_listing))
        no_keys no_settings no_env"
proof -
  have agree: "local_ollama (Ollama_listOptions no_keys no_settings)
                 = env_first (Ollama_listOptions no_keys no_settings)"
    by (simp add: local_ollama_def env_first_def Ollama_listOptions_def)
  have differ: "env_first (Ollama_instanceOptions remote_env no_keys no_settings)
                  \<noteq> env_first (Ollama_listOptions no_keys no_settings)"
    by (simp add: env_first_def Ollama_listOptions_def Ollama_instanceOptions_def remote_env_def)
  note inst = Ollama_listing_ignores_serverEnv
                [of local_ollama "answering 20 (ok_json llama2_listing)" no_keys no_settings
                    remote_env no_env env_first]
  have same: "Ollama_getDynamicModels_call local_ollama (answering 20 (ok_json llama2_listing))
                no_keys no_settings remote_env
              = Ollama_getDynamicModels_call env_first (answering 20 (ok_json llama2_listing))
                no_keys no_settings no_env"
    by (rule mp [OF conjunct2 [OF conjunct2 [OF inst]] agree])
  show ?thesis by (intro conjI agree differ same)
qed

subsection \<open>Errors on the listing path\<close>

text \<open>
  C1, as the code has it. The Featherless adapter's \<open>getDynamicModels\<close> never raises
  to its caller, and returns the empty sequence when the base URL or the key is
  missing or empty, when the network fails, when the body is not JSON, when the
  document lacks the models array, and on a non-success status whose body has been
  read. The Ollama adapter's \<open>getDynamicModels\<close> logs and throws again: a network
  failure, a body that is not JSON and a document without the models array each
  reach its caller as an exception.
\<close>

theorem Featherless_swallows_Ollama_rethrows:
  "(\<forall>err. Featherless_getDynamicModels R w k s e \<noteq> Rejected err)
   \<and> (R (Featherless_listOptions k s e) = (b, a) \<and>
        (falsy b \<or> falsy a
          \<or> faulty (w (Featherless_request (template b) (template a)))
          \<or> not_ok_response (w (Featherless_request (template b) (template a)))) \<longrightarrow>
        Featherless_getDynamicModels R w k s e = Fulfilled [])
   \<and> (R' (Ollama_listOptions k' s') = (b', a') \<and> faulty (w' (Ollama_request b')) \<longrightarrow>
        (\<exists>err. Ollama_getDynamicModels R' w' k' s' = Rejected err))"
proof (intro conjI allI impI)
  fix err show "Featherless_getDynamicModels R w k s e \<noteq> Rejected err"
    by (rule Featherless_never_rejects)
next
  assume h: "R (Featherless_listOptions k s e) = (b, a) \<and>
        (falsy b \<or> falsy a
          \<or> faulty (w (Featherless_request (template b) (template a)))
          \<or> not_ok_response (w (Featherless_request (template b) (template a))))"
  then have r: "R (Featherless_listOptions k s e) = (b, a)" by simp
  from h consider "falsy b \<or> falsy a"
    | "faulty (w (Featherless_request (template b) (template a)))"
    | "not_ok_response (w (Featherless_request (template b) (template a)))" by blast
  then show "Featherless_getDynamicModels R w k s e = Fulfilled []"
  proof cases
    case 1 with r show ?thesis by (rule Featherless_unconfigured)
  next
    case 2 show ?thesis
      by (rule Featherless_catch [of R k s e b a w,
            OF r Featherless_try_faulty [of w "template b" "template a", OF 2]])
  next
    case 3 show ?thesis
      by (rule Featherless_catch [of R k s e b a w,
            OF r Featherless_try_not_ok [of w "template b" "template a", OF 3]])
  qed
next
  assume h: "R' (Ollama_listOptions k' s') = (b', a') \<and> faulty (w' (Ollama_request b'))"
  show "\<exists>err. Ollama_getDynamicModels R' w' k' s' = Rejected err"
    by (rule Ollama_faulty [of R' k' s' b' a' w', OF conjunct1 [OF h] conjunct2 [OF h]])
qed

theorem Featherless_swallows_Ollama_rethrows_witness:
  "falsy None
   \<and> Featherless_getDynamicModels nothing_configured unreachable no_keys no_settings None
       = Fulfilled []
   \<and> faulty (answering 120 not_json_response
               (Featherless_request ''https://api.featherless.ai/v1'' ''secret''))
   \<and> Featherless_getDynamicModels featherless_account (answering 120 not_json_response)
         no_keys no_settings None = Fulfilled []
   \<and> not_ok_response (answering 120 error_response
               (Featherless_request ''https://api.featherless.ai/v1'' ''secret''))
   \<and> Featherless_getDynamicModels featherless_account (answering 120 error_response)
         no_keys no_settings None = Fulfilled []
   \<and> faulty (unreachable (Ollama_request (Some ''http://localhost:11434'')))
   \<and> (\<exists>err. Ollama_getDynamicModels local_ollama unreachable no_keys no_settings
                = Rejected err)
   \<and> faulty (answering 20 (ok_json (JObj [])) (Ollama_request (Some ''http://localhost:11434'')))
   \<and> (\<exists>err. Ollama_getDynamicModels local_ollama (answering 20 (ok_json (JObj [])))
                no_keys no_settings = Rejected err)"
proof -
  have f1: "faulty (answering 120 not_json_response
               (Featherless_request ''https://api.featherless.ai/v1'' ''secret''))"
    by (simp add: faulty_def answering_def not_json_response_def)
  have f2: "faulty (unreachable (Ollama_request (Some ''http://localhost:11434'')))"
    by (simp add: faulty_def unreachable_def)
  have f3: "not_ok_response (answering 120 error_response
               (Featherless_request ''https://api.featherless.ai/v1'' ''secret''))"
    by (simp add: not_ok_response_def answering_def error_response_def)
  have f4: "faulty (answering 20 (ok_json (JObj []))
               (Ollama_request (Some ''http://localhost:11434'')))"
    by (simp add: faulty_def answering_def ok_json_def lacks_models_array_def)
  note i1 = Featherless_swallows_Ollama_rethrows
              [of nothing_configured unreachable no_keys no_settings None None None
                  local_ollama no_keys no_settings "Some ''http://localhost:11434''" None
                  unreachable]
  note i2 = Featherless_swallows_Ollama_rethrows
              [of featherless_account "answering 120 not_json_response" no_keys no_settings None
                  "Some ''https://api.featherless.ai/v1''" "Some ''secret''"
                  local_ollama no_keys no_settings "Some ''http://localhost:11434''" None
                  "answering 20 (ok_json (JObj []))"]
  note i3 = Featherless_swallows_Ollama_rethrows
              [of featherless_account "answering 120 error_response" no_keys no_settings None
                  "Some ''https://api.featherless.ai/v1''" "Some ''secret''"
                  local_ollama no_keys no_settings "Some ''http://localhost:11434''" None
                  unreachable]
  have a: "Featherless_getDynamicModels nothing_configured unreachable no_keys no_settings None
             = Fulfilled []"
    using i1 by (simp add: nothing_configured_def)
  have b: "Featherless_getDynamicModels featherless_account (answering 120 not_json_response)
             no_keys no_settings None = Fulfilled []"
    using i2 f1 by (simp add: featherless_account_def)
  have b': "Featherless_getDynamicModels featherless_account (answering 120 error_response)
             no_keys no_settings None = Fulfilled []"
    using i3 f3 by (simp add: featherless_account_def)
  have c: "\<exists>err. Ollama_getDynamicModels local_ollama unreachable no_keys no_settings
             = Rejected err"
    using i1 f2 by (simp add: local_ollama_def)
  have c': "\<exists>err. Ollama_getDynamicModels local_ollama (answering 20 (ok_json (JObj [])))
             no_keys no_settings = Rejected err"
    using i2 f4 by (simp add: local_ollama_def)
  have z: "falsy None" by simp
  show ?thesis by (intro conjI z a f1 b f3 b' f2 c f4 c')
qed

text \<open>
  The claim as written fails for the Ollama adapter: with the backend unreachable its
  \<open>getDynamicModels\<close> rejects with the error of \<open>fetch\<close> instead of returning \<open>[]\<close>.
\<close>

theorem Ollama_network_failure_raises:
  "Ollama_getDynamicModels local_ollama unreachable no_keys no_settings
     = Rejected FetchFailed
   \<and> Ollama_getDynamicModels local_ollama unreachable no_keys no_settings
     \<noteq> Fulfilled []"
  by (simp add: Ollama_getDynamicModels_def fetch_def unreachable_def local_ollama_def)

subsection \<open>The timeout of the listing request\<close>

text \<open>
  C3, as the code has it. The Featherless adapter's listing \<open>fetch\<close> carries an abort
  signal armed for 5000 ms: when no response has arrived by then (the backend takes
  longer, or never answers) the request is cancelled and \<open>getDynamicModels\<close> returns
  the empty sequence. The Ollama adapter's \<open>fetch\<close> has no signal and no timer: its
  \<open>getDynamicModels\<close> stays pending while the backend does not answer, and a response
  gives the same result however late it arrives.
\<close>

theorem Featherless_timeout_Ollama_none:
  "(R (Featherless_listOptions k s e) = (b, a) \<and>
      exceeds 5000 (w (Featherless_request (template b) (template a))) \<longrightarrow>
      Featherless_getDynamicModels R w k s e = Fulfilled [])
   \<and> (R' (Ollama_listOptions k' s') = (b', a') \<and> w' (Ollama_request b') = NoReply \<longrightarrow>
        Ollama_getDynamicModels R' w' k' s' = Pending)
   \<and> (R' (Ollama_listOptions k' s') = (b', a') \<and> w' (Ollama_request b') = Responds t r \<longrightarrow>
        Ollama_getDynamicModels R' w' k' s'
          = Ollama_getDynamicModels R' (answering 0 r) k' s')"
proof (intro conjI impI)
  assume h: "R (Featherless_listOptions k s e) = (b, a) \<and>
      exceeds 5000 (w (Featherless_request (template b) (template a)))"
  have "Featherless_try w (template b) (template a) = Rejected AbortError"
    by (rule Featherless_try_exceeds [of w "template b" "template a", OF conjunct2 [OF h]])
  then have "Featherless_try w (template b) (template a) = Fulfilled [] \<or>
     (\<exists>err. Featherless_try w (template b) (template a) = Rejected err)" by simp
  then show "Featherless_getDynamicModels R w k s e = Fulfilled []"
    by (rule Featherless_catch [of R k s e b a w, OF conjunct1 [OF h]])
next
  assume "R' (Ollama_listOptions k' s') = (b', a') \<and> w' (Ollama_request b') = NoReply"
  then show "Ollama_getDynamicModels R' w' k' s' = Pending"
    by (simp add: Ollama_getDynamicModels_def fetch_def)
next
  assume "R' (Ollama_listOptions k' s') = (b', a') \<and> w' (Ollama_request b') = Responds t r"
  then show "Ollama_getDynamicModels R' w' k' s'
          = Ollama_getDynamicModels R' (answering 0 r) k' s'"
    by (simp add: Ollama_getDynamicModels_def fetch_def answering_def)
qed

theorem Featherless_timeout_Ollama_none_witness:
  "exceeds 5000 (answering 6000 (ok_json m1_listing)
                  (Featherless_request ''https://api.featherless.ai/v1'' ''secret''))
   \<and> Featherless_getDynamicModels featherless_account (answering 6000 (ok_json m1_listing))
         no_keys no_settings None = Fulfilled []
   \<and> exceeds 5000 (silent (Featherless_request ''https://api.featherless.ai/v1'' ''secret''))
   \<and> Featherless_getDynamicModels featherless_account silent no_keys no_settings None
         = Fulfilled []
   \<and> Ollama_getDynamicModels local_ollama silent no_keys no_settings = Pending
   \<and> Ollama_getDynamicModels local_ollama (answering 6000 (ok_json llama2_listing))
         no_keys no_settings
       = Ollama_getDynamicModels local_ollama (answering 0 (ok_json llama2_listing))
         no_keys no_settings"
proof -
  have e1: "exceeds 5000 (answering 6000 (ok_json m1_listing)
                  (Featherless_request ''https://api.featherless.ai/v1'' ''secret''))"
    by (simp add: exceeds_def answering_def)
  have e2: "exceeds 5000 (silent (Featherless_request ''https://api.featherless.ai/v1'' ''secret''))"
    by (simp add: exceeds_def silent_def)
  note i1 = Featherless_timeout_Ollama_none
              [of featherless_account no_keys no_settings None
                  "Some ''https://api.featherless.ai/v1''" "Some ''secret''"
                  "answering 6000 (ok_json m1_listing)"
                  local_ollama no_keys no_settings "Some ''http://localhost:11434''" None
                  silent 6000 "ok_json llama2_listing"]
  note i2 = Featherless_timeout_Ollama_none
              [of featherless_account no_keys no_settings None
                  "Some ''https://api.featherless.ai/v1''" "Some ''secret''"
                  silent
                  local_ollama no_keys no_settings "Some ''http://localhost:11434''" None
                  "answering 6000 (ok_json llama2_listing)" 6000 "ok_json llama2_listing"]
  have a: "Featherless_getDynamicModels featherless_account (answering 6000 (ok_json m1_listing))
         no_keys no_settings None = Fulfilled []"
    using i1 e1 by (simp add: featherless_account_def)
  have b: "Featherless_getDynamicModels featherless_account silent no_keys no_settings None
         = Fulfilled []"
    using i2 e2 by (simp add: featherless_account_def)
  have c: "Ollama_getDynamicModels local_ollama silent no_keys no_settings = Pending"
    using i1 by (simp add: local_ollama_def silent_def)
  have d: "Ollama_getDynamicModels local_ollama (answering 6000 (ok_json llama2_listing))
         no_keys no_settings
       = Ollama_getDynamicModels local_ollama (answering 0 (ok_json llama2_listing))
         no_keys no_settings"
    using i2 by (simp add: local_ollama_def answering_def)
  show ?thesis using a b c d e1 e2 by simp
qed

text \<open>
  The claim as written fails for the Ollama adapter: a response that arrives after
  6 seconds is not cancelled, its models are returned; and with a backend that never
  answers the call never returns.
\<close>

theorem Ollama_slow_listing_not_cancelled:
  "exceeds 5000 (answering 6000 (ok_json llama2_listing)
                  (Ollama_request (Some ''http://localhost:11434'')))
   \<and> Ollama_getDynamicModels local_ollama (answering 6000 (ok_json llama2_listing))
         no_keys no_settings
       = Fulfilled [\<lparr>name = JStr ''llama2'', label = JStr ''llama2'', provider = ''Ollama'',
                   maxTokenAllowed = JNum 4096\<rparr>]
   \<and> Ollama_getDynamicModels local_ollama silent no_keys no_settings = Pending"
  by (simp add: exceeds_def answering_def ok_json_def llama2_listing_def local_ollama_def
      Ollama_getDynamicModels_def fetch_def response_json_def Ollama_modelsOfData_def
      Ollama_toModelInfo_def Ollama_name_def silent_def)

subsection \<open>Constructing a model instance\<close>

text \<open>
  C2, as the code has it. The Featherless adapter's \<open>getModelInstance\<close> raises
  \<open>Error('No base URL or API key configured for Featherless')\<close> when the base URL or
  the key is missing or empty, and returns no handle then. The Ollama adapter's
  \<open>getModelInstance\<close> checks nothing and needs no key: with a base URL resolved it
  returns the instance bound to \<open>`${baseUrl}/api`\<close>, whatever the key.
\<close>

theorem Featherless_instance_needs_credentials:
  "(R (Featherless_instanceOptions env k s) = (b, a) \<and> (falsy b \<or> falsy a) \<longrightarrow>
      Featherless_getModelInstance R m env k s
        = Inl (Error ''No base URL or API key configured for Featherless''))
   \<and> (R' (Ollama_instanceOptions env' k' s') = (Some u, a') \<longrightarrow>
        Ollama_getModelInstance R' m' env' k' s' = Inr (OllamaInstance m' 4096 (u @ ''/api'')))"
  by (simp add: Featherless_getModelInstance_def Ollama_getModelInstance_def)

theorem Featherless_instance_needs_credentials_witness:
  "falsy None
   \<and> Featherless_getModelInstance nothing_configured ''m1'' no_env no_keys ollama_settings
       = Inl (Error ''No base URL or API key configured for Featherless'')
   \<and> Ollama_getModelInstance local_ollama ''llama2'' no_env no_keys ollama_settings
       = Inr (OllamaInstance ''llama2'' 4096 ''http://localhost:11434/api'')"
  using Featherless_instance_needs_credentials
          [of nothing_configured no_env no_keys ollama_settings None None "''m1''"
              local_ollama no_env no_keys ollama_settings "''http://localhost:11434''" None "''llama2''"]
  by (simp add: nothing_configured_def local_ollama_def)

text \<open>
  The claim as written fails for the Ollama adapter: without a resolvable key, and
  even without a resolvable base URL, its \<open>getModelInstance\<close> returns a handle.
\<close>

theorem Ollama_instance_without_credentials:
  "local_ollama (Ollama_instanceOptions no_env no_keys ollama_settings)
     = (Some ''http://localhost:11434'', None)
   \<and> Ollama_getModelInstance local_ollama ''llama2'' no_env no_keys ollama_settings
     = Inr (OllamaInstance ''llama2'' 4096 ''http://localhost:11434/api'')
   \<and> nothing_configured (Ollama_instanceOptions no_env no_keys ollama_settings) = (None, None)
   \<and> Ollama_getModelInstance nothing_configured ''llama2'' no_env no_keys ollama_settings
     = Inr (OllamaInstance ''llama2'' 4096 ''undefined/api'')"
  by (simp add: Ollama_getModelInstance_def local_ollama_def nothing_configured_def)

subsection \<open>The context length\<close>

text \<open>
  C4, as the code has it. For every record that it maps, the Featherless adapter sets
  \<open>maxTokenAllowed\<close> to the record's \<open>details.context_length\<close> as it is, with no
  fallback: a record whose details report none, and whose name and size can be
  converted to strings for the label, is mapped with \<open>maxTokenAllowed\<close> undefined. The
  Ollama adapter sets \<open>maxTokenAllowed\<close> to the constant 4096 for every record it maps.
\<close>

theorem maxTokenAllowed_per_adapter:
  "(Featherless_toModelInfo m = Inr mi \<longrightarrow>
      (\<exists>d. js_get m ''details'' = Inr d \<and> js_get d ''context_length'' = Inr (maxTokenAllowed mi)))
   \<and> (js_get m' ''details'' = Inr (JObj ds) \<and> map_of ds ''context_length'' = None \<and>
        js_get (JObj ds) ''name'' = Inr n \<and> js_to_string n = Inr ns \<and>
        js_get (JObj ds) ''size'' = Inr z \<and> js_to_string z = Inr zs \<longrightarrow>
        (\<exists>mi'. Featherless_toModelInfo m' = Inr mi' \<and> maxTokenAllowed mi' = JUndefined))
   \<and> (Ollama_toModelInfo m'' = Inr mi'' \<longrightarrow> maxTokenAllowed mi'' = JNum 4096)"
proof (intro conjI impI)
  assume "Featherless_toModelInfo m = Inr mi"
  then show "\<exists>d. js_get m ''details'' = Inr d \<and> js_get d ''context_length'' = Inr (maxTokenAllowed mi)"
    by (rule Featherless_toModelInfo_context)
next
  assume h: "js_get m' ''details'' = Inr (JObj ds) \<and> map_of ds ''context_length'' = None \<and>
        js_get (JObj ds) ''name'' = Inr n \<and> js_to_string n = Inr ns \<and>
        js_get (JObj ds) ''size'' = Inr z \<and> js_to_string z = Inr zs"
  show "\<exists>mi'. Featherless_toModelInfo m' = Inr mi' \<and> maxTokenAllowed mi' = JUndefined"
    by (rule Featherless_toModelInfo_no_context [where ds = ds and n = n and ns = ns and z = z and zs = zs])
       (use h in simp_all)
next
  assume "Ollama_toModelInfo m'' = Inr mi''"
  then show "maxTokenAllowed mi'' = JNum 4096"
    by (auto simp: Ollama_toModelInfo_def split: sum.splits)
qed

theorem maxTokenAllowed_per_adapter_witness:
  "Featherless_toModelInfo m1_record = Inr m1_info
   \<and> (\<exists>d. js_get m1_record ''details'' = Inr d \<and> js_get d ''context_length'' = Inr (JNum 8192))
   \<and> js_get m1_record_no_context ''details''
       = Inr (JObj [(''name'', JStr ''Model One''), (''size'', JStr ''7B'')])
   \<and> map_of [(''name'', JStr ''Model One''), (''size'', JStr ''7B'')] ''context_length'' = None
   \<and> js_to_string (JStr ''Model One'') = Inr ''Model One''
   \<and> js_to_string (JStr ''7B'') = Inr ''7B''
   \<and> (\<exists>mi. Featherless_toModelInfo m1_record_no_context = Inr mi \<and> maxTokenAllowed mi = JUndefined)
   \<and> Ollama_toModelInfo llama2_record = Inr llama2_info
   \<and> maxTokenAllowed llama2_info = JNum 4096"
proof -
  have a: "Featherless_toModelInfo m1_record = Inr m1_info"
    by (simp add: Featherless_toModelInfo_def m1_record_def m1_info_def Featherless_name_def)
  have b: "js_get m1_record_no_context ''details''
       = Inr (JObj [(''name'', JStr ''Model One''), (''size'', JStr ''7B'')])"
    by (simp add: m1_record_no_context_def)
  have c: "map_of [(''name'', JStr ''Model One''), (''size'', JStr ''7B'')] ''context_length'' = None"
    by simp
  have n: "js_get (JObj [(''name'', JStr ''Model One''), (''size'', JStr ''7B'')]) ''name''
             = Inr (JStr ''Model One'')"
    by simp
  have ns: "js_to_string (JStr ''Model One'') = Inr ''Model One''" by simp
  have z: "js_get (JObj [(''name'', JStr ''Model One''), (''size'', JStr ''7B'')]) ''size''
             = Inr (JStr ''7B'')"
    by simp
  have zs: "js_to_string (JStr ''7B'') = Inr ''7B''" by simp
  have d: "Ollama_toModelInfo llama2_record = Inr llama2_info"
    by (simp add: Ollama_toModelInfo_def llama2_record_def llama2_info_def Ollama_name_def)
  note i = maxTokenAllowed_per_adapter
             [where m = m1_record and mi = m1_info and m' = m1_record_no_context
                and ds = "[(''name'', JStr ''Model One''), (''size'', JStr ''7B'')]"
                and n = "JStr ''Model One''" and ns = "''Model One''"
                and z = "JStr ''7B''" and zs = "''7B''"
                and m'' = llama2_record and mi'' = llama2_info]
  have e: "\<exists>d. js_get m1_record ''details'' = Inr d \<and> js_get d ''context_length'' = Inr (JNum 8192)"
    using i a by (simp add: m1_info_def)
  have f: "\<exists>mi. Featherless_toModelInfo m1_record_no_context = Inr mi \<and> maxTokenAllowed mi = JUndefined"
    using i b c n ns z zs by blast
  have g: "maxTokenAllowed llama2_info = JNum 4096"
    using i d by blast
  show ?thesis by (intro conjI a e b c ns zs f d g)
qed

text \<open>
  The claim as written fails for the Featherless adapter: a record whose details have
  no \<open>context_length\<close> is listed with \<open>maxTokenAllowed\<close> undefined, not 4096.
\<close>

theorem Featherless_no_context_length_no_fallback:
  "Featherless_getDynamicModels featherless_account (answering 120 (ok_json m1_listing_no_context))
     no_keys no_settings None
   = Fulfilled [\<lparr>name = JStr ''m1'', label = JStr ''Model One (7B)'', provider = ''Featherless'',
                 maxTokenAllowed = JUndefined\<rparr>]
   \<and> JUndefined \<noteq> JNum 4096"
  by (simp add: Featherless_getDynamicModels_def Featherless_try_def fetch_def
      Featherless_modelsOfData_def Featherless_toModelInfo_def Featherless_name_def
      m1_listing_no_context_def featherless_account_def answering_def ok_json_def)

subsection \<open>The provider of every listed model\<close>

text \<open>
  C7. Whenever an adapter's \<open>getDynamicModels\<close> returns a sequence, every \<open>ModelInfo\<close>
  in it has the adapter's \<open>name\<close> as its \<open>provider\<close>.
\<close>

theorem provider_is_adapter_name:
  "(Featherless_getDynamicModels R w k s e = Fulfilled ms \<longrightarrow>
      (\<forall>m \<in> set ms. provider m = Featherless_name))
   \<and> (Ollama_getDynamicModels R' w' k' s' = Fulfilled ms' \<longrightarrow>
        (\<forall>m \<in> set ms'. provider m = Ollama_name))"
proof (intro conjI impI ballI)
  fix m assume "Featherless_getDynamicModels R w k s e = Fulfilled ms" and "m \<in> set ms"
  then show "provider m = Featherless_name" by (rule Featherless_provider)
next
  fix m assume "Ollama_getDynamicModels R' w' k' s' = Fulfilled ms'" and "m \<in> set ms'"
  then show "provider m = Ollama_name" by (rule Ollama_provider)
qed

theorem provider_is_adapter_name_witness:
  "Featherless_getDynamicModels featherless_account (answering 120 (ok_json m1_listing))
     no_keys no_settings None = Fulfilled [m1_info]
   \<and> provider m1_info = ''Featherless''
   \<and> Ollama_getDynamicModels local_ollama (answering 20 (ok_json llama2_listing))
       no_keys no_settings = Fulfilled [llama2_info]
   \<and> provider llama2_info = ''Ollama''"
proof -
  have a: "Featherless_getDynamicModels featherless_account (answering 120 (ok_json m1_listing))
     no_keys no_settings None = Fulfilled [m1_info]"
    by (simp add: Featherless_getDynamicModels_def Featherless_try_def fetch_def
      Featherless_modelsOfData_def Featherless_toModelInfo_def Featherless_name_def
      m1_listing_def featherless_account_def answering_def ok_json_def m1_info_def)
  have b: "Ollama_getDynamicModels local_ollama (answering 20 (ok_json llama2_listing))
       no_keys no_settings = Fulfilled [llama2_info]"
    by (simp add: Ollama_getDynamicModels_def fetch_def response_json_def
      Ollama_modelsOfData_def Ollama_toModelInfo_def Ollama_name_def llama2_listing_def
      local_ollama_def answering_def ok_json_def llama2_info_def)
  note i = provider_is_adapter_name
             [of featherless_account "answering 120 (ok_json m1_listing)" no_keys no_settings None
                 "[m1_info]"
                 local_ollama "answering 20 (ok_json llama2_listing)" no_keys no_settings
                 "[llama2_info]"]
  have c: "provider m1_info = ''Featherless''"
    using i a by (simp add: Featherless_name_def)
  have d: "provider llama2_info = ''Ollama''"
    using i b by (simp add: Ollama_name_def)
  show ?thesis by (intro conjI a b c d)
qed

subsection \<open>Selecting a model after a change of provider\<close>

text \<open>
  C8. When \<open>fetchModels\<close> runs for a provider, the list has been fetched, and no entry
  of the list has both the selected model's name and the provider's name, then the
  first entry of the list that belongs to the provider becomes the selected model and
  is written to the \<open>selectedModel\<close> cookie; the fetched list replaces the old one.
\<close>

theorem fetchModels_selects_first_of_provider:
  assumes "chatProvider s = Some p"
      and "getModelList (chatApiKeys s) (chat_providerSettings p) = Fulfilled (Some models)"
      and "\<forall>m \<in> set models. \<not> (name m = chatModel s \<and> provider m = p)"
      and "i < length models" and "provider (models ! i) = p"
      and "\<forall>j<i. provider (models ! j) \<noteq> p"
  shows "chatModel (fetchModels getModelList s) = name (models ! i)
         \<and> cookies (fetchModels getModelList s) ''selectedModel'' = Some (name (models ! i))
         \<and> modelList (fetchModels getModelList s) = models
         \<and> modelLoading (fetchModels getModelList s) = None"
proof -
  have f: "find (\<lambda>m. provider m = p) models = Some (models ! i)"
    using assms(4-6) by (intro find_first) auto
  have a: "\<forall>m \<in> set models. \<not> (name m = chatModel (s\<lparr>modelLoading := Some p\<rparr>) \<and> provider m = p)"
    using assms(3) by simp
  show ?thesis
    using assms(1,2) by (simp add: fetchModels_def selectModel_first [OF a f])
qed

theorem fetchModels_selects_first_of_provider_witness:
  "chatProvider chat0 = Some ''Ollama''
   \<and> two_providers (chatApiKeys chat0) (chat_providerSettings ''Ollama'') = Fulfilled (Some fetched_models)
   \<and> list_all (\<lambda>m. \<not> (name m = chatModel chat0 \<and> provider m = ''Ollama'')) fetched_models
   \<and> 1 < length fetched_models \<and> provider (fetched_models ! 1) = ''Ollama''
   \<and> provider (fetched_models ! 0) \<noteq> ''Ollama''
   \<and> chatModel (fetchModels two_providers chat0) = JStr ''llama2''
   \<and> cookies (fetchModels two_providers chat0) ''selectedModel'' = Some (JStr ''llama2'')"
proof -
  have h1: "chatProvider chat0 = Some ''Ollama''" by (simp add: chat0_def)
  have h2: "two_providers (chatApiKeys chat0) (chat_providerSettings ''Ollama'') = Fulfilled (Some fetched_models)"
    by (simp add: two_providers_def)
  have h3: "\<forall>m \<in> set fetched_models. \<not> (name m = chatModel chat0 \<and> provider m = ''Ollama'')"
    by (simp add: fetched_models_def chat0_def)
  have h4: "1 < length fetched_models" by (simp add: fetched_models_def)
  have h5: "provider (fetched_models ! 1) = ''Ollama''" by (simp add: fetched_models_def)
  have h6: "\<forall>j<1. provider (fetched_models ! j) \<noteq> ''Ollama''" by (simp add: fetched_models_def)
  have n: "name (fetched_models ! 1) = JStr ''llama2''" by (simp add: fetched_models_def)
  from fetchModels_selects_first_of_provider
         [where s = chat0 and p = "''Ollama''" and getModelList = two_providers
            and models = fetched_models and i = 1, OF h1 h2 h3 h4 h5 h6]
  have "chatModel (fetchModels two_providers chat0) = JStr ''llama2''
        \<and> cookies (fetchModels two_providers chat0) ''selectedModel'' = Some (JStr ''llama2'')"
    using n by simp
  moreover have "list_all (\<lambda>m. \<not> (name m = chatModel chat0 \<and> provider m = ''Ollama'')) fetched_models"
    using h3 by (simp add: list_all_iff)
  moreover have "provider (fetched_models ! 0) \<noteq> ''Ollama''"
    using h6 by simp
  ultimately show ?thesis using h1 h2 h4 h5 by blast
qed

end
